theory Spec2Isabelle
  imports Complex_Main
begin

section \<open>Conventions of the embedding\<close>

text \<open>
  The services of \<^verbatim>\<open>app/services/data_processing.py\<close> and
  \<^verbatim>\<open>app/services/ml_forecasting.py\<close> are embedded as HOL functions.

  \<^item> A float is a real number; NaN and infinities are outside the model. In the
    forecasting service the arithmetic on floats is that of the reals. The anomaly
    detector and the pattern analyzer branch on computed statistics (a standard
    deviation compared with zero, one variance compared with a tenth of another), where
    rounding decides the branch: there the numpy reductions and the float operators are
    parameters \<open>fl\<close> of the functions, and what is proved of such a function holds
    for every rounding.
  \<^item> An exception is a value of type \<open>exn\<close>; a step that may raise returns
    \<open>exn + 'a\<close>, and every \<^verbatim>\<open>try/except Exception\<close> of the source is a
    \<open>case\<close> on that sum.
  \<^item> The time-series store, the relational store, pandas and scikit-learn are not part
    of the repository. The stores are explicit state or query results handed to the
    functions; a library routine whose result the source only passes on is a parameter
    that may fail.
\<close>

datatype exn = Exn (exc_class: string) (exc_msg: string)

text \<open>A point in time as \<^verbatim>\<open>datetime.datetime\<close> holds it: calendar fields.\<close>

record datetime =
  dt_year :: nat
  dt_month :: nat
  dt_day :: nat
  dt_hour :: nat
  dt_minute :: nat
  dt_second :: nat

section \<open>numpy statistics\<close>

text \<open>The quantities that \<^verbatim>\<open>np.mean\<close>, \<^verbatim>\<open>np.var\<close> and \<^verbatim>\<open>np.std\<close> compute with
  their defaults (population variance, \<^verbatim>\<open>ddof=0\<close>), in real arithmetic; the numpy
  routines return them rounded.\<close>

definition np_mean :: "real list \<Rightarrow> real" where
  "np_mean xs = sum_list xs / real (length xs)"

definition np_var :: "real list \<Rightarrow> real" where
  "np_var xs = np_mean (map (\<lambda>x. (x - np_mean xs)\<^sup>2) xs)"

definition np_std :: "real list \<Rightarrow> real" where
  "np_std xs = sqrt (np_var xs)"



section \<open>Anomaly detector (\<^verbatim>\<open>DataProcessor.detect_anomalies\<close>)\<close>









section \<open>Trend and pattern analyzer (\<^verbatim>\<open>DataProcessor._detect_patterns\<close>)\<close>














section \<open>Forecasting service (\<^verbatim>\<open>MLForecastingService\<close>)\<close>

subsection \<open>Reading the time-series store\<close>

text \<open>The Flux queries of the service, as functions of their parameters. A query yields its
  rows in time order, or raises.\<close>

record tsdb =
  sensor_rows :: "string \<Rightarrow> string \<Rightarrow> nat \<Rightarrow> exn + (datetime \<times> real) list"
  rainfall_rows :: "string \<Rightarrow> nat \<Rightarrow> exn + (datetime \<times> real) list"

text \<open>\<^verbatim>\<open>_get_recent_data(self, station_id, sensor_id, hours=48)\<close>: rows
  \<^verbatim>\<open>{timestamp, water_level}\<close> of the last \<open>hours\<close> hours, or the empty list when the
  query raises.\<close>

definition get_recent_data :: "tsdb \<Rightarrow> string \<Rightarrow> string \<Rightarrow> nat \<Rightarrow> (datetime \<times> real) list" where
  "get_recent_data db station_id sensor_id hours =
     (case sensor_rows db station_id sensor_id hours of Inl e \<Rightarrow> [] | Inr rows \<Rightarrow> rows)"

text \<open>A call \<^verbatim>\<open>self._get_recent_data(station_id, sensor_id, **kwargs)\<close>. Python binds the
  two positional arguments, then the keywords: the only parameter left is \<open>hours\<close>, and
  any other keyword raises \<^verbatim>\<open>TypeError\<close> before the body runs.\<close>

definition call_get_recent_data ::
  "tsdb \<Rightarrow> string \<Rightarrow> string \<Rightarrow> (string \<times> nat) list \<Rightarrow> exn + (datetime \<times> real) list" where
  "call_get_recent_data db station_id sensor_id kwargs =
     (case filter (\<lambda>(k, v). k \<noteq> ''hours'') kwargs of
        (k, v) # rest \<Rightarrow>
          Inl (Exn ''TypeError''
                 (''_get_recent_data() got an unexpected keyword argument '' @ k))
      | [] \<Rightarrow>
          Inr (get_recent_data db station_id sensor_id
                 (case map_of kwargs ''hours'' of None \<Rightarrow> 48 | Some h \<Rightarrow> h)))"

text \<open>\<^verbatim>\<open>_get_rainfall_data(self, station_id, days=30)\<close>\<close>

definition get_rainfall_data :: "tsdb \<Rightarrow> string \<Rightarrow> nat \<Rightarrow> (datetime \<times> real) list" where
  "get_rainfall_data db station_id days =
     (case rainfall_rows db station_id days of Inl e \<Rightarrow> [] | Inr rows \<Rightarrow> rows)"

subsection \<open>State of the service\<close>

record forecast_point =
  fp_timestamp :: datetime
  predicted_level :: real
  confidence_lower :: real
  confidence_upper :: real
  horizon_hours :: nat

text \<open>Modelled from the spec: the classes \<^verbatim>\<open>DroughtRiskAssessment\<close> and
  \<^verbatim>\<open>RechargeEstimate\<close> of \<^verbatim>\<open>app/models/analytics.py\<close> are not among the sources. A
  stored row has the fields the \<^verbatim>\<open>_store_...\<close> functions set.\<close>

record stored_assessment =
  sa_station_id :: string
  sa_risk_level :: string
  sa_risk_score :: real
  sa_days_to_drought :: int
  sa_current_level :: real
  sa_historical_average :: real
  sa_trend :: string

record stored_estimate =
  se_station_id :: string
  se_recharge_mm :: real
  se_rainfall_mm :: real
  se_confidence_score :: real

text \<open>The model registry (\<^verbatim>\<open>self.models\<close>, \<^verbatim>\<open>self.scalers\<close>), the artifact files
  under \<^verbatim>\<open>models/\<close> and the rows committed to the relational store.\<close>

record ('s, 'm) ml_state =
  models :: "string \<rightharpoonup> 'm"
  scalers :: "string \<rightharpoonup> 's"
  model_files :: "string \<rightharpoonup> 'm"
  scaler_files :: "string \<rightharpoonup> 's"
  forecasts :: "(string \<times> forecast_point) list"
  assessments :: "stored_assessment list"
  estimates :: "stored_estimate list"

definition model_key :: "string \<Rightarrow> string \<Rightarrow> string" where
  "model_key station_id sensor_id = station_id @ ''_'' @ sensor_id"

definition model_file :: "string \<Rightarrow> string" where
  "model_file key = ''models/'' @ key @ ''_model.joblib''"

definition scaler_file :: "string \<Rightarrow> string" where
  "scaler_file key = ''models/'' @ key @ ''_scaler.joblib''"










subsection \<open>Drought risk (\<^verbatim>\<open>assess_drought_risk\<close>)\<close>

text \<open>\<^verbatim>\<open>np.min\<close> of a non-empty list, \<^verbatim>\<open>int(x)\<close> of a float (truncation towards
  zero), and the slope \<^verbatim>\<open>np.polyfit(xs, ys, 1)[0]\<close> of the least-squares line.\<close>

definition np_min :: "real list \<Rightarrow> real" where
  "np_min xs = fold min (tl xs) (hd xs)"

definition py_int :: "real \<Rightarrow> int" where
  "py_int x = (if 0 \<le> x then \<lfloor>x\<rfloor> else \<lceil>x\<rceil>)"

definition polyfit_slope :: "real list \<Rightarrow> real list \<Rightarrow> real" where
  "polyfit_slope xs ys =
     (let n = real (length xs);
          sx = sum_list xs;
          sy = sum_list ys;
          sxy = sum_list (map2 (*) xs ys);
          sxx = sum_list (map (\<lambda>x. x * x) xs)
      in (n * sxy - sx * sy) / (n * sxx - sx * sx))"

text \<open>The result dict: the keys \<^verbatim>\<open>risk_level\<close> and \<^verbatim>\<open>risk_score\<close> always, the other
  four only for a computed assessment.\<close>

record drought_details =
  current_level :: real
  historical_average :: real
  trend :: string
  days_to_drought :: int

record drought_result =
  risk_level :: string
  risk_score :: real
  details :: "drought_details option"

definition unknown_risk :: drought_result where
  "unknown_risk = \<lparr> risk_level = ''unknown'', risk_score = 0, details = None \<rparr>"

text \<open>The score of lines 445 to 464: three additive signals.\<close>

definition risk_score_of :: "real \<Rightarrow> real \<Rightarrow> real \<Rightarrow> real \<Rightarrow> real \<Rightarrow> real" where
  "risk_score_of current mean_level std_level min_level recent_trend =
     (let s0 = 0;
          s1 = (if current < mean_level - std_level then s0 + 3 / 10
                else if current < mean_level then s0 + 1 / 10 else s0);
          s2 = (if recent_trend < - (1 / 100) then s1 + 2 / 10
                else if recent_trend < - (5 / 1000) then s1 + 1 / 10 else s1);
          s3 = (if current < min_level * (11 / 10) then s2 + 3 / 10
                else if current < min_level * (12 / 10) then s2 + 1 / 10 else s2)
      in s3)"

definition risk_level_of :: "real \<Rightarrow> string" where
  "risk_level_of score =
     (if score \<ge> 7 / 10 then ''critical''
      else if score \<ge> 5 / 10 then ''high''
      else if score \<ge> 3 / 10 then ''medium''
      else ''low'')"

definition trend_name :: "real \<Rightarrow> string" where
  "trend_name t = (if t < 0 then ''decreasing'' else if t > 0 then ''increasing'' else ''stable'')"

text \<open>\<^verbatim>\<open>_store_drought_assessment\<close>: one row added to the relational store.\<close>

definition store_drought_assessment ::
  "('s, 'm) ml_state \<Rightarrow> string \<Rightarrow> string \<Rightarrow> real \<Rightarrow> real \<Rightarrow> real \<Rightarrow> real \<Rightarrow> int \<Rightarrow> ('s, 'm) ml_state" where
  "store_drought_assessment st station_id level score current average slope days =
     st \<lparr> assessments := assessments st @
            [\<lparr> sa_station_id = station_id, sa_risk_level = level, sa_risk_score = score,
               sa_days_to_drought = days, sa_current_level = current,
               sa_historical_average = average, sa_trend = trend_name slope \<rparr>] \<rparr>"

text \<open>The statements of \<^verbatim>\<open>assess_drought_risk\<close> that follow the fetch of
  \<open>recent_data\<close> (lines 427 to 493).\<close>

definition assess_window ::
  "('s, 'm) ml_state \<Rightarrow> string \<Rightarrow> (datetime \<times> real) list \<Rightarrow> drought_result \<times> ('s, 'm) ml_state" where
  "assess_window st station_id recent_data =
     (if recent_data = [] then (unknown_risk, st)
      else
        let current = snd (last recent_data);
            historical_levels = map snd recent_data;
            mean_level = np_mean historical_levels;
            std_level = np_std historical_levels;
            min_level = np_min historical_levels;
            recent_trend =
              (if length historical_levels > 7
               then polyfit_slope (map real [0..<7])
                      (drop (length historical_levels - 7) historical_levels)
               else 0);
            score = risk_score_of current mean_level std_level min_level recent_trend;
            level = risk_level_of score;
            days = (if recent_trend < 0
                    then py_int ((current - min_level) / \<bar>recent_trend\<bar> * 24)
                    else 999)
        in (\<lparr> risk_level = level, risk_score = score,
               details = Some \<lparr> current_level = current, historical_average = mean_level,
                                 trend = trend_name recent_trend, days_to_drought = days \<rparr> \<rparr>,
            store_drought_assessment st station_id level score current mean_level
              recent_trend days))"

text \<open>\<^verbatim>\<open>assess_drought_risk\<close>. The fetch is written
  \<^verbatim>\<open>self._get_recent_data(station_id, sensor_id, days=90)\<close>; an exception anywhere in the
  body is answered by the handler with the unknown result.\<close>

definition assess_drought_risk ::
  "tsdb \<Rightarrow> ('s, 'm) ml_state \<Rightarrow> string \<Rightarrow> string \<Rightarrow> drought_result \<times> ('s, 'm) ml_state" where
  "assess_drought_risk db st station_id sensor_id =
     (case call_get_recent_data db station_id sensor_id [(''days'', 90)] of
        Inl e \<Rightarrow> (unknown_risk, st)
      | Inr recent_data \<Rightarrow> assess_window st station_id recent_data)"

subsection \<open>Recharge (\<^verbatim>\<open>estimate_recharge\<close>)\<close>

record recharge_result =
  recharge_mm :: real
  recharge_method :: string
  recharge_rainfall_mm :: "real option"
  level_change_m :: "real option"
  period_days :: "nat option"

definition store_recharge_estimate ::
  "('s, 'm) ml_state \<Rightarrow> string \<Rightarrow> real \<Rightarrow> real \<Rightarrow> real \<Rightarrow> ('s, 'm) ml_state" where
  "store_recharge_estimate st station_id recharge rainfall level_change =
     st \<lparr> estimates := estimates st @
            [\<lparr> se_station_id = station_id, se_recharge_mm = recharge,
               se_rainfall_mm = rainfall, se_confidence_score = 7 / 10 \<rparr>] \<rparr>"

text \<open>The statements of \<^verbatim>\<open>estimate_recharge\<close> that follow the two fetches (lines 537 to
  559).\<close>

definition recharge_of_window ::
  "('s, 'm) ml_state \<Rightarrow> string \<Rightarrow> nat \<Rightarrow> (datetime \<times> real) list \<Rightarrow> (datetime \<times> real) list \<Rightarrow>
   recharge_result \<times> ('s, 'm) ml_state" where
  "recharge_of_window st station_id days water_data rainfall_data =
     (if water_data = [] \<or> length water_data < 7 then
        (\<lparr> recharge_mm = 0, recharge_method = ''insufficient_data'',
            recharge_rainfall_mm = None, level_change_m = None, period_days = None \<rparr>, st)
      else
        let water_levels = map snd water_data;
            level_change = last water_levels - hd water_levels;
            total_rainfall = (if rainfall_data \<noteq> [] then sum_list (map snd rainfall_data) else 0);
            recharge = max 0 (level_change * 1000) + total_rainfall
        in (\<lparr> recharge_mm = recharge, recharge_method = ''water_balance'',
               recharge_rainfall_mm = Some total_rainfall, level_change_m = Some level_change,
               period_days = Some days \<rparr>,
            store_recharge_estimate st station_id recharge total_rainfall level_change))"

text \<open>\<^verbatim>\<open>estimate_recharge\<close>. The first fetch is written
  \<^verbatim>\<open>self._get_recent_data(station_id, 'water_level', days=days)\<close>.\<close>

definition estimate_recharge ::
  "tsdb \<Rightarrow> ('s, 'm) ml_state \<Rightarrow> string \<Rightarrow> nat \<Rightarrow> recharge_result \<times> ('s, 'm) ml_state" where
  "estimate_recharge db st station_id days =
     (case call_get_recent_data db station_id ''water_level'' [(''days'', days)] of
        Inl e \<Rightarrow>
          (\<lparr> recharge_mm = 0, recharge_method = ''error'', recharge_rainfall_mm = None,
              level_change_m = None, period_days = None \<rparr>, st)
      | Inr water_data \<Rightarrow>
          recharge_of_window st station_id days water_data
            (get_rainfall_data db station_id days))"

text \<open>Test data: a level that stays at 20 m for nine days and drops to 10 m, and a
  level that rises by 0.01 m within a week.\<close>

definition day_at :: "nat \<Rightarrow> datetime" where
  "day_at d = \<lparr>dt_year = 2024, dt_month = 1, dt_day = d, dt_hour = 0, dt_minute = 0, dt_second = 0\<rparr>"

definition falling_window :: "(datetime \<times> real) list" where
  "falling_window = [(day_at 1, 20), (day_at 2, 20), (day_at 3, 20), (day_at 4, 20), (day_at 5, 20),
                     (day_at 6, 20), (day_at 7, 20), (day_at 8, 20), (day_at 9, 20), (day_at 10, 10)]"

definition rising_window :: "(datetime \<times> real) list" where
  "rising_window = [(day_at 1, 10), (day_at 2, 10), (day_at 3, 10), (day_at 4, 10), (day_at 5, 10),
                    (day_at 6, 10), (day_at 7, 1001 / 100)]"

subsection \<open>Training (\<^verbatim>\<open>train_water_level_model\<close>)\<close>

text \<open>A row of \<^verbatim>\<open>_get_training_data\<close>: timestamp, water level and the weather fields
  recorded at that timestamp.\<close>

record training_row =
  tr_timestamp :: datetime
  tr_water_level :: real
  tr_weather :: "(string \<times> real) list"

text \<open>The scikit-learn routines the service calls: \<^verbatim>\<open>StandardScaler.fit\<close> and
  \<^verbatim>\<open>transform\<close>, \<^verbatim>\<open>RandomForestRegressor.fit\<close> and \<^verbatim>\<open>predict\<close>. Each may raise.\<close>

record ('s, 'm) sklearn =
  scaler_fit :: "real list list \<Rightarrow> exn + 's"
  scaler_transform :: "'s \<Rightarrow> real list list \<Rightarrow> exn + real list list"
  forest_fit :: "real list list \<Rightarrow> real list \<Rightarrow> exn + 'm"
  forest_predict :: "'m \<Rightarrow> real list list \<Rightarrow> exn + real list"

text \<open>\<^verbatim>\<open>_get_training_data\<close>: the combined rows, or the empty list when a query
  raises.\<close>

definition get_training_data :: "(exn + training_row list) \<Rightarrow> training_row list" where
  "get_training_data query_result = (case query_result of Inl e \<Rightarrow> [] | Inr rows \<Rightarrow> rows)"

text \<open>\<^verbatim>\<open>_prepare_features\<close>. \<open>feature_table\<close> stands for the pandas statements:
  it yields the rows of the DataFrame that are left after \<^verbatim>\<open>dropna\<close>, each as its
  feature columns and its water level, or raises.\<close>

definition prepare_features ::
  "(training_row list \<Rightarrow> exn + (real list \<times> real) list) \<Rightarrow> training_row list \<Rightarrow>
   (real list list \<times> real list) option" where
  "prepare_features feature_table data =
     (if data = [] then None
      else case feature_table data of
             Inl e \<Rightarrow> None
           | Inr df \<Rightarrow> if length df < 10 then None else Some (map fst df, map snd df))"

text \<open>\<^verbatim>\<open>sklearn.metrics\<close>: both raise \<^verbatim>\<open>ValueError\<close> on arrays of different
  lengths and on empty arrays.\<close>

definition mean_absolute_error :: "real list \<Rightarrow> real list \<Rightarrow> exn + real" where
  "mean_absolute_error y_true y_pred =
     (if length y_true = length y_pred \<and> y_true \<noteq> []
      then Inr (np_mean (map2 (\<lambda>a b. \<bar>a - b\<bar>) y_true y_pred))
      else Inl (Exn ''ValueError'' ''inconsistent numbers of samples''))"

definition mean_squared_error :: "real list \<Rightarrow> real list \<Rightarrow> exn + real" where
  "mean_squared_error y_true y_pred =
     (if length y_true = length y_pred \<and> y_true \<noteq> []
      then Inr (np_mean (map2 (\<lambda>a b. (a - b)\<^sup>2) y_true y_pred))
      else Inl (Exn ''ValueError'' ''inconsistent numbers of samples''))"

text \<open>The result dict of training, by its \<^verbatim>\<open>status\<close>.\<close>

datatype train_result =
    Insufficient_data
  | Insufficient_features
  | Success (mae: real) (rmse: real) (training_samples: nat) (test_samples: nat)
  | Train_error (message: string)

fun status :: "train_result \<Rightarrow> string" where
  "status Insufficient_data = ''insufficient_data''"
| "status Insufficient_features = ''insufficient_features''"
| "status (Success a b c d) = ''success''"
| "status (Train_error m) = ''error''"

text \<open>\<^verbatim>\<open>_save_model\<close>: the model file is written first, then the scaler file.
  \<open>dump_ok path\<close> tells whether writing \<open>path\<close> succeeds; a failure is logged and
  ends the function.\<close>

definition save_model ::
  "(string \<Rightarrow> bool) \<Rightarrow> ('s, 'm) ml_state \<Rightarrow> 'm \<Rightarrow> 's \<Rightarrow> string \<Rightarrow> ('s, 'm) ml_state" where
  "save_model dump_ok st model scaler key =
     (if dump_ok (model_file key) then
        let st1 = st \<lparr> model_files := (model_files st)(model_file key \<mapsto> model) \<rparr> in
        if dump_ok (scaler_file key)
        then st1 \<lparr> scaler_files := (scaler_files st1)(scaler_file key \<mapsto> scaler) \<rparr>
        else st1
      else st)"

text \<open>\<^verbatim>\<open>int(len(X) * 0.8)\<close>\<close>

definition split_idx :: "nat \<Rightarrow> nat" where
  "split_idx n = nat (py_int (real n * (8 / 10)))"

text \<open>The body of the \<^verbatim>\<open>try\<close> block of \<^verbatim>\<open>train_water_level_model\<close>: \<open>Inl e\<close> when
  the exception \<open>e\<close> reaches the handler.\<close>

definition train_body ::
  "('s, 'm) sklearn \<Rightarrow> (training_row list \<Rightarrow> exn + (real list \<times> real) list) \<Rightarrow> (string \<Rightarrow> bool) \<Rightarrow>
   ('s, 'm) ml_state \<Rightarrow> (exn + training_row list) \<Rightarrow> string \<Rightarrow> string \<Rightarrow>
   exn + (train_result \<times> ('s, 'm) ml_state)" where
  "train_body sk feature_table dump_ok st query_result station_id sensor_id =
     (let data = get_training_data query_result in
      if length data < 100 then Inr (Insufficient_data, st)
      else
        case prepare_features feature_table data of
          None \<Rightarrow> Inr (Insufficient_features, st)
        | Some (X, y) \<Rightarrow>
            if length X < 50 then Inr (Insufficient_features, st)
            else
              let k = split_idx (length X);
                  X_train = take k X; X_test = drop k X;
                  y_train = take k y; y_test = drop k y
              in
              (case scaler_fit sk X_train of Inl e \<Rightarrow> Inl e | Inr scaler \<Rightarrow>
              (case scaler_transform sk scaler X_train of Inl e \<Rightarrow> Inl e | Inr X_train_scaled \<Rightarrow>
              (case scaler_transform sk scaler X_test of Inl e \<Rightarrow> Inl e | Inr X_test_scaled \<Rightarrow>
              (case forest_fit sk X_train_scaled y_train of Inl e \<Rightarrow> Inl e | Inr model \<Rightarrow>
              (case forest_predict sk model X_test_scaled of Inl e \<Rightarrow> Inl e | Inr y_pred \<Rightarrow>
              (case mean_absolute_error y_test y_pred of Inl e \<Rightarrow> Inl e | Inr mae_v \<Rightarrow>
              (case mean_squared_error y_test y_pred of Inl e \<Rightarrow> Inl e | Inr mse_v \<Rightarrow>
                 let key = model_key station_id sensor_id;
                     st1 = st \<lparr> models := (models st)(key \<mapsto> model),
                                scalers := (scalers st)(key \<mapsto> scaler) \<rparr>;
                     st2 = save_model dump_ok st1 model scaler key
                 in Inr (Success mae_v (sqrt mse_v) (length X_train) (length X_test),
                         st2)))))))))"

definition train_water_level_model ::
  "('s, 'm) sklearn \<Rightarrow> (training_row list \<Rightarrow> exn + (real list \<times> real) list) \<Rightarrow> (string \<Rightarrow> bool) \<Rightarrow>
   ('s, 'm) ml_state \<Rightarrow> (exn + training_row list) \<Rightarrow> string \<Rightarrow> string \<Rightarrow>
   train_result \<times> ('s, 'm) ml_state" where
  "train_water_level_model sk feature_table dump_ok st query_result station_id sensor_id =
     (case train_body sk feature_table dump_ok st query_result station_id sensor_id of
        Inl e \<Rightarrow> (Train_error (exc_msg e), st)
      | Inr r \<Rightarrow> r)"

subsection \<open>Prediction (\<^verbatim>\<open>predict_water_level\<close>)\<close>

text \<open>The names bound at module level in \<^verbatim>\<open>ml_forecasting.py\<close> (lines 5 to 23). A
  function body that uses a name it does not bind itself looks it up here; the
  \<^verbatim>\<open>import os\<close> of \<^verbatim>\<open>_save_model\<close> is local to that function.\<close>

definition ml_forecasting_globals :: "string list" where
  "ml_forecasting_globals =
     [''asyncio'', ''logging'', ''np'', ''pd'', ''datetime'', ''timedelta'',
      ''Dict'', ''List'', ''Optional'', ''Any'', ''Tuple'', ''joblib'',
      ''RandomForestRegressor'', ''IsolationForest'', ''StandardScaler'',
      ''mean_absolute_error'', ''mean_squared_error'', ''tf'', ''keras'',
      ''get_influx_client'', ''get_db'', ''WaterLevelForecast'', ''DroughtRiskAssessment'',
      ''RechargeEstimate'', ''logger'', ''MLForecastingService'']"

definition lookup_global :: "string \<Rightarrow> exn + unit" where
  "lookup_global name =
     (if name \<in> set ml_forecasting_globals then Inr ()
      else Inl (Exn ''NameError'' (''name '' @ name @ '' is not defined'')))"

text \<open>\<^verbatim>\<open>load_model\<close>: \<^verbatim>\<open>os.path.exists\<close> needs the name \<^verbatim>\<open>os\<close>; any exception is
  logged and gives \<^verbatim>\<open>False\<close>.\<close>

definition load_model ::
  "('s, 'm) ml_state \<Rightarrow> string \<Rightarrow> string \<Rightarrow> bool \<times> ('s, 'm) ml_state" where
  "load_model st station_id sensor_id =
     (let key = model_key station_id sensor_id in
      case lookup_global ''os'' of
        Inl e \<Rightarrow> (False, st)
      | Inr u \<Rightarrow>
          (case model_files st (model_file key) of
             None \<Rightarrow> (False, st)
           | Some model \<Rightarrow>
               (case scaler_files st (scaler_file key) of
                  None \<Rightarrow> (False, st)
                | Some scaler \<Rightarrow>
                    (True, st \<lparr> models := (models st)(key \<mapsto> model),
                                 scalers := (scalers st)(key \<mapsto> scaler) \<rparr>))))"




text \<open>The loop of lines 280 to 308 over the remaining hours. \<open>prep\<close> is the method
  \<^verbatim>\<open>self._prepare_prediction_features\<close>; the scaler and the model may raise, and
  \<^verbatim>\<open>model.predict(X_scaled)[0]\<close> raises \<^verbatim>\<open>IndexError\<close> on an empty result.\<close>

fun predict_loop ::
  "((datetime \<times> real) list \<Rightarrow> nat \<Rightarrow> real list option) \<Rightarrow> ('s, 'm) sklearn \<Rightarrow> 's \<Rightarrow> 'm \<Rightarrow>
   (nat \<Rightarrow> datetime) \<Rightarrow> (datetime \<times> real) list \<Rightarrow> forecast_point list \<Rightarrow> nat list \<Rightarrow>
   exn + forecast_point list" where
  "predict_loop prep sk scaler model clock current_data predictions [] = Inr predictions"
| "predict_loop prep sk scaler model clock current_data predictions (hour # hours) =
     (case prep current_data hour of
        None \<Rightarrow> Inr predictions
      | Some X \<Rightarrow>
          (case scaler_transform sk scaler [X] of Inl e \<Rightarrow> Inl e | Inr X_scaled \<Rightarrow>
          (case forest_predict sk model X_scaled of Inl e \<Rightarrow> Inl e | Inr ys \<Rightarrow>
          (case ys of
             [] \<Rightarrow> Inl (Exn ''IndexError'' ''index 0 is out of bounds'')
           | prediction # rest \<Rightarrow>
               let confidence_interval = (1 / 10) * \<bar>prediction\<bar> in
               predict_loop prep sk scaler model clock
                 (current_data @ [(clock hour, prediction)])
                 (predictions @
                    [\<lparr> fp_timestamp = clock hour,
                        predicted_level = prediction,
                        confidence_lower = prediction - confidence_interval,
                        confidence_upper = prediction + confidence_interval,
                        horizon_hours = hour \<rparr>])
                 hours))))"

text \<open>\<^verbatim>\<open>_store_predictions\<close>: one row per point added to the relational store.\<close>

definition store_predictions ::
  "('s, 'm) ml_state \<Rightarrow> string \<Rightarrow> forecast_point list \<Rightarrow> ('s, 'm) ml_state" where
  "store_predictions st station_id predictions =
     st \<lparr> forecasts := forecasts st @ map (\<lambda>p. (station_id, p)) predictions \<rparr>"

text \<open>The body of the \<^verbatim>\<open>try\<close> block of \<^verbatim>\<open>predict_water_level\<close>, with the state it
  leaves; \<open>Inl e\<close> when the exception \<open>e\<close> reaches the handler.\<close>

definition predict_body ::
  "((datetime \<times> real) list \<Rightarrow> nat \<Rightarrow> real list option) \<Rightarrow> ('s, 'm) sklearn \<Rightarrow> tsdb \<Rightarrow>
   (nat \<Rightarrow> datetime) \<Rightarrow> ('s, 'm) ml_state \<Rightarrow> string \<Rightarrow> string \<Rightarrow> nat \<Rightarrow>
   (exn + forecast_point list) \<times> ('s, 'm) ml_state" where
  "predict_body prep sk db clock st station_id sensor_id horizon =
     (let key = model_key station_id sensor_id;
          (loaded, st1) = (if models st key = None then load_model st station_id sensor_id
                           else (True, st))
      in
      if \<not> loaded then (Inr [], st1)
      else
        case models st1 key of
          None \<Rightarrow> (Inl (Exn ''KeyError'' key), st1)
        | Some model \<Rightarrow>
            (case scalers st1 key of
               None \<Rightarrow> (Inl (Exn ''KeyError'' key), st1)
             | Some scaler \<Rightarrow>
                 (case call_get_recent_data db station_id sensor_id [(''hours'', 48)] of
                    Inl e \<Rightarrow> (Inl e, st1)
                  | Inr recent_data \<Rightarrow>
                      if recent_data = [] then (Inr [], st1)
                      else
                        (case predict_loop prep sk scaler model clock recent_data []
                                [1..<horizon + 1] of
                           Inl e \<Rightarrow> (Inl e, st1)
                         | Inr predictions \<Rightarrow>
                             (Inr predictions,
                              store_predictions st1 station_id predictions)))))"

text \<open>\<^verbatim>\<open>predict_water_level\<close>: the handler answers the empty list. The method
  \<^verbatim>\<open>self._prepare_prediction_features\<close> is the argument \<open>prep\<close>; the one the class
  defines is \<open>prepare_prediction_features frame_features clock\<close>.\<close>

definition predict_water_level ::
  "((datetime \<times> real) list \<Rightarrow> nat \<Rightarrow> real list option) \<Rightarrow> ('s, 'm) sklearn \<Rightarrow> tsdb \<Rightarrow>
   (nat \<Rightarrow> datetime) \<Rightarrow> ('s, 'm) ml_state \<Rightarrow> string \<Rightarrow> string \<Rightarrow> nat \<Rightarrow>
   forecast_point list \<times> ('s, 'm) ml_state" where
  "predict_water_level prep sk db clock st station_id sensor_id horizon =
     (case predict_body prep sk db clock st station_id sensor_id horizon of
        (Inl e, st1) \<Rightarrow> ([], st1)
      | (Inr predictions, st1) \<Rightarrow> (predictions, st1))"

subsection \<open>Test data for training and prediction\<close>

definition hour_at :: "nat \<Rightarrow> datetime" where
  "hour_at i = \<lparr>dt_year = 2024, dt_month = 1, dt_day = 1 + i div 24, dt_hour = i mod 24,
               dt_minute = 0, dt_second = 0\<rparr>"

text \<open>One hundred hourly rows at a level of 2 m, a feature table that loses the first
  24 rows to the 24-hour lag, a scaler that leaves the features as they are and a model
  that predicts the mean of its training targets.\<close>

definition hourly_rows :: "training_row list" where
  "hourly_rows =
     map (\<lambda>i. \<lparr>tr_timestamp = hour_at i, tr_water_level = 2, tr_weather = []\<rparr>) [0..<100]"

definition lagged_table :: "training_row list \<Rightarrow> exn + (real list \<times> real) list" where
  "lagged_table rows =
     Inr (map (\<lambda>r. ([real (dt_hour (tr_timestamp r))], tr_water_level r)) (drop 24 rows))"

definition mean_sklearn :: "(unit, real) sklearn" where
  "mean_sklearn =
     \<lparr> scaler_fit = (\<lambda>X. Inr ()),
       scaler_transform = (\<lambda>s X. Inr X),
       forest_fit = (\<lambda>X y. Inr (np_mean y)),
       forest_predict = (\<lambda>m X. Inr (map (\<lambda>x. m) X)) \<rparr>"

definition empty_state :: "(unit, real) ml_state" where
  "empty_state =
     \<lparr> models = Map.empty, scalers = Map.empty, model_files = Map.empty,
       scaler_files = Map.empty, forecasts = [], assessments = [], estimates = [] \<rparr>"

definition trained_state :: "(unit, real) ml_state" where
  "trained_state =
     empty_state \<lparr> models := [''S1_W1'' \<mapsto> 2], scalers := [''S1_W1'' \<mapsto> ()] \<rparr>"

definition one_reading :: tsdb where
  "one_reading =
     \<lparr> sensor_rows = (\<lambda>station_id sensor_id hours. Inr [(hour_at 0, 2)]),
       rainfall_rows = (\<lambda>station_id days. Inr []) \<rparr>"

definition no_readings :: tsdb where
  "no_readings =
     \<lparr> sensor_rows = (\<lambda>station_id sensor_id hours. Inr []),
       rainfall_rows = (\<lambda>station_id days. Inr []) \<rparr>"

text \<open>A feature routine that succeeds for the first two hours of the horizon only.\<close>

definition two_hours :: "(datetime \<times> real) list \<Rightarrow> nat \<Rightarrow> real list option" where
  "two_hours data horizon = (if horizon < 3 then Some [real horizon] else None)"

section \<open>Verified properties\<close>

subsection \<open>Anomaly detector\<close>









subsection \<open>Daily pattern detection\<close>



























subsection \<open>Drought risk and recharge\<close>

lemma call_get_recent_data_days:
  "call_get_recent_data db station_id sensor_id [(''days'', n)]
   = Inl (Exn ''TypeError'' (''_get_recent_data() got an unexpected keyword argument '' @ ''days''))"
  by (simp add: call_get_recent_data_def)

lemma assess_drought_risk_unknown:
  "assess_drought_risk db st station_id sensor_id = (unknown_risk, st)"
  by (simp add: assess_drought_risk_def call_get_recent_data_days)

lemma sqrt9: "sqrt 9 = 3"
  using real_sqrt_abs [of 3] by simp

lemma falling_stats:
  "np_mean (map snd falling_window) = 19"
  "np_std (map snd falling_window) = 3"
  "np_min (map snd falling_window) = 10"
  by (simp_all add: falling_window_def np_mean_def np_std_def np_var_def np_min_def sqrt9)

lemma falling_trend:
  "polyfit_slope (map real [0..<7]) (drop (length (map snd falling_window) - 7) (map snd falling_window)) = - (15 / 14)"
  by (simp add: falling_window_def polyfit_slope_def upt_rec Let_def)

lemma assess_window_falling:
  "risk_level (fst (assess_window st ''S1'' falling_window)) = ''critical''"
  "risk_score (fst (assess_window st ''S1'' falling_window)) = 8 / 10"
proof -
  have l: "length (map snd falling_window) = 10" "falling_window \<noteq> []" "snd (last falling_window) = 10"
    by (simp_all add: falling_window_def)
  have sc: "risk_score_of 10 19 3 10 (- (15 / 14)) = 8 / 10"
    by (simp add: risk_score_of_def)
  show "risk_level (fst (assess_window st ''S1'' falling_window)) = ''critical''"
    "risk_score (fst (assess_window st ''S1'' falling_window)) = 8 / 10"
    unfolding assess_window_def Let_def falling_stats falling_trend
    using l by (simp_all add: sc risk_level_of_def)
qed

text \<open>
  C2 (fails on the code). The claim describes the score of three additive signals, the four
  levels and the sentinel 999. The statements that compute them are never reached: the
  fetch passes the keyword \<open>days\<close> to a function whose parameter is \<open>hours\<close>, the call
  raises \<^verbatim>\<open>TypeError\<close>, and the handler answers every request with risk level
  \<open>unknown\<close> and score 0, storing nothing. For the window that falls from 20 to 10 the
  statements after the fetch would give level \<open>critical\<close> and score 0.8.
\<close>

theorem assess_drought_risk_never_scores:
  "assess_drought_risk db st station_id sensor_id = (unknown_risk, st)
   \<and> risk_level (fst (assess_window st ''S1'' falling_window)) = ''critical''
   \<and> risk_score (fst (assess_window st ''S1'' falling_window)) = 8 / 10"
  by (simp add: assess_drought_risk_unknown assess_window_falling)

lemma risk_score_of_mono:
  "c2 \<le> c1 \<Longrightarrow> risk_score_of c1 m s mn t \<le> risk_score_of c2 m s mn t"
  by (simp add: risk_score_of_def Let_def)

lemma risk_score_of_bounds:
  "0 \<le> risk_score_of c m s mn t" "risk_score_of c m s mn t \<le> 8 / 10"
  by (simp_all add: risk_score_of_def Let_def)

text \<open>
  C8. For fixed mean, standard deviation, minimum and trend slope, the score of the three
  signals does not decrease when the current level decreases: for \<open>c2 \<le> c1\<close> the
  score for \<open>c2\<close> is at least the score for \<open>c1\<close>. The score returned by
  \<^verbatim>\<open>assess_drought_risk\<close> itself is the same for every store, so it is monotone as well.
\<close>

theorem risk_score_monotone:
  assumes "c2 \<le> c1"
  shows "risk_score_of c1 mean_level std_level min_level slope
           \<le> risk_score_of c2 mean_level std_level min_level slope
         \<and> risk_score (fst (assess_drought_risk db1 st station_id sensor_id))
           \<le> risk_score (fst (assess_drought_risk db2 st station_id sensor_id))"
  using risk_score_of_mono [OF assms] by (simp add: assess_drought_risk_unknown)

theorem risk_score_monotone_witness:
  "risk_score_of 17 19 3 10 0 = 1 / 10 \<and> risk_score_of 10 19 3 10 0 = 6 / 10
   \<and> risk_score_of 17 19 3 10 0 \<le> risk_score_of 10 19 3 10 0"
proof -
  have a: "risk_score_of 17 19 3 10 0 = 1 / 10" "risk_score_of 10 19 3 10 0 = 6 / 10"
    by (simp_all add: risk_score_of_def)
  have "(10::real) \<le> 17" by simp
  from risk_score_monotone [OF this, of 19 3 10 0]
  have "risk_score_of 17 19 3 10 0 \<le> risk_score_of 10 19 3 10 0" by blast
  with a show ?thesis by blast
qed


lemma assess_window_score:
  "0 \<le> risk_score (fst (assess_window st station_id w))
   \<and> risk_score (fst (assess_window st station_id w)) \<le> 1"
proof (cases "w = []")
  case True
  then show ?thesis by (simp add: assess_window_def unknown_risk_def)
next
  case False
  have b: "0 \<le> risk_score_of c m s mn t \<and> risk_score_of c m s mn t \<le> 1" for c m s mn t
    using risk_score_of_bounds [of c m s mn t] by simp
  show ?thesis using False b by (simp add: assess_window_def Let_def)
qed

lemma assess_window_stored:
  "drop (length (assessments st)) (assessments (snd (assess_window st station_id w)))
   = (if w = [] then []
      else [\<lparr> sa_station_id = station_id,
               sa_risk_level = risk_level (fst (assess_window st station_id w)),
               sa_risk_score = risk_score (fst (assess_window st station_id w)),
               sa_days_to_drought = days_to_drought (the (details (fst (assess_window st station_id w)))),
               sa_current_level = current_level (the (details (fst (assess_window st station_id w)))),
               sa_historical_average = historical_average (the (details (fst (assess_window st station_id w)))),
               sa_trend = trend (the (details (fst (assess_window st station_id w)))) \<rparr>])"
  by (simp add: assess_window_def store_drought_assessment_def Let_def)

text \<open>
  C9. The score returned by \<^verbatim>\<open>assess_drought_risk\<close> lies in [0, 1] and the call
  stores no assessment; the score of the three signals lies in [0, 1] for all inputs; and
  for every window the statements after the fetch return a score in [0, 1] and store only
  rows whose score lies in [0, 1].
\<close>

theorem drought_risk_score_in_unit_interval:
  "0 \<le> risk_score (fst (assess_drought_risk db st station_id sensor_id))
   \<and> risk_score (fst (assess_drought_risk db st station_id sensor_id)) \<le> 1
   \<and> assessments (snd (assess_drought_risk db st station_id sensor_id)) = assessments st
   \<and> 0 \<le> risk_score_of current mean_level std_level min_level slope
   \<and> risk_score_of current mean_level std_level min_level slope \<le> 1
   \<and> 0 \<le> risk_score (fst (assess_window st station_id window))
   \<and> risk_score (fst (assess_window st station_id window)) \<le> 1
   \<and> list_all (\<lambda>a. 0 \<le> sa_risk_score a \<and> sa_risk_score a \<le> 1)
        (drop (length (assessments st)) (assessments (snd (assess_window st station_id window))))"
proof -
  have b: "0 \<le> risk_score_of c m s mn t \<and> risk_score_of c m s mn t \<le> 1" for c m s mn t
    using risk_score_of_bounds [of c m s mn t] by simp
  have w: "0 \<le> risk_score (fst (assess_window st station_id window))
           \<and> risk_score (fst (assess_window st station_id window)) \<le> 1"
    using assess_window_score [of st station_id window] .
  have p: "list_all (\<lambda>a. 0 \<le> sa_risk_score a \<and> sa_risk_score a \<le> 1)
        (drop (length (assessments st)) (assessments (snd (assess_window st station_id window))))"
    unfolding assess_window_stored using w by simp
  show ?thesis
    using b w p by (simp add: assess_drought_risk_unknown unknown_risk_def)
qed

lemma estimate_recharge_error:
  "estimate_recharge db st station_id days =
     (\<lparr> recharge_mm = 0, recharge_method = ''error'', recharge_rainfall_mm = None,
         level_change_m = None, period_days = None \<rparr>, st)"
  by (simp add: estimate_recharge_def call_get_recent_data_days)

text \<open>
  C4 (fails on the code). The claim describes the water balance
  \<open>max 0 (level change * 1000) + total rainfall\<close> and the result
  \<open>insufficient_data\<close>. The statements that compute them are never reached: the fetch
  passes the keyword \<open>days\<close> to \<^verbatim>\<open>_get_recent_data\<close>, the call raises
  \<^verbatim>\<open>TypeError\<close>, and the handler answers every request with method \<open>error\<close> and
  recharge 0, storing nothing. For a rise of 0.01 m and 5 mm of rain the statements after
  the fetch would give 15 mm by water balance.
\<close>

theorem estimate_recharge_never_estimates:
  "estimate_recharge db st station_id days =
     (\<lparr> recharge_mm = 0, recharge_method = ''error'', recharge_rainfall_mm = None,
         level_change_m = None, period_days = None \<rparr>, st)
   \<and> recharge_mm (fst (recharge_of_window st ''S1'' 30 rising_window [(day_at 3, 5)])) = 15
   \<and> recharge_method (fst (recharge_of_window st ''S1'' 30 rising_window [(day_at 3, 5)]))
       = ''water_balance''"
  by (simp add: estimate_recharge_error recharge_of_window_def rising_window_def Let_def)

subsection \<open>Training\<close>

lemma split_idx_eq: "split_idx n = (4 * n) div 5"
proof -
  have "real n * (8 / 10) = real (4 * n) / real 5" by simp
  then have "\<lfloor>real n * (8 / 10)\<rfloor> = int ((4 * n) div 5)"
    by (simp only: floor_divide_of_nat_eq)
  moreover have "0 \<le> real n * (8 / 10)" by simp
  ultimately show ?thesis by (simp add: split_idx_def py_int_def)
qed

lemma split_idx_le: "split_idx n \<le> n"
  by (simp add: split_idx_eq)

lemma min_split_idx: "min n (split_idx n) = split_idx n"
  by (simp add: split_idx_le min_absorb2)

lemma train_body_success:
  assumes "train_body sk feature_table dump_ok st query_result station_id sensor_id = Inr (res, st')"
    and "status res = ''success''"
  shows "\<exists>X y scaler X_train_scaled X_test_scaled model y_pred mae_v mse_v.
           prepare_features feature_table (get_training_data query_result) = Some (X, y)
         \<and> 100 \<le> length (get_training_data query_result) \<and> 50 \<le> length X
         \<and> scaler_fit sk (take (split_idx (length X)) X) = Inr scaler
         \<and> scaler_transform sk scaler (take (split_idx (length X)) X) = Inr X_train_scaled
         \<and> scaler_transform sk scaler (drop (split_idx (length X)) X) = Inr X_test_scaled
         \<and> forest_fit sk X_train_scaled (take (split_idx (length X)) y) = Inr model
         \<and> forest_predict sk model X_test_scaled = Inr y_pred
         \<and> mean_absolute_error (drop (split_idx (length X)) y) y_pred = Inr mae_v
         \<and> mean_squared_error (drop (split_idx (length X)) y) y_pred = Inr mse_v
         \<and> res = Success mae_v (sqrt mse_v) (split_idx (length X)) (length X - split_idx (length X))
         \<and> models st' (model_key station_id sensor_id) = Some model
         \<and> scalers st' (model_key station_id sensor_id) = Some scaler"
  using assms
  unfolding train_body_def Let_def
  by (auto split: if_splits option.splits sum.splits prod.splits
           simp: save_model_def Let_def min_split_idx)

lemma train_cases:
  "train_water_level_model sk feature_table dump_ok st query_result station_id sensor_id = (res, st')
   \<Longrightarrow> (\<exists>e. train_body sk feature_table dump_ok st query_result station_id sensor_id = Inl e
            \<and> res = Train_error (exc_msg e) \<and> st' = st)
     \<or> train_body sk feature_table dump_ok st query_result station_id sensor_id = Inr (res, st')"
  by (auto simp: train_water_level_model_def split: sum.splits)




lemma length_hourly_rows: "length hourly_rows = 100"
  by (simp add: hourly_rows_def)

lemma hourly_rows_nonempty: "hourly_rows \<noteq> []"
  using length_hourly_rows by auto

lemma lagged_hourly:
  "lagged_table hourly_rows = Inr (map (\<lambda>i. ([real (i mod 24)], 2)) [24..<100])"
  by (simp add: lagged_table_def hourly_rows_def hour_at_def drop_map comp_def
        del: upt_rec_numeral)

lemma prepare_hourly:
  "prepare_features lagged_table hourly_rows
     = Some (map (\<lambda>i. [real (i mod 24)]) [24..<100], replicate 76 2)"
  by (simp add: prepare_features_def hourly_rows_nonempty lagged_hourly comp_def
        map_replicate_const del: upt_rec_numeral)

lemma split_idx_76: "split_idx 76 = 60"
  by (simp add: split_idx_eq)

lemma np_mean_replicate: "0 < n \<Longrightarrow> np_mean (replicate n c) = c"
  by (simp add: np_mean_def sum_list_replicate)

lemma train_body_hourly:
  "train_body mean_sklearn lagged_table dump_ok empty_state (Inr hourly_rows) ''S1'' ''W1''
     = Inr (Success 0 0 60 16,
            save_model dump_ok
              (empty_state \<lparr> models := (models empty_state)(''S1_W1'' \<mapsto> 2),
                             scalers := (scalers empty_state)(''S1_W1'' \<mapsto> ()) \<rparr>)
              2 () ''S1_W1'')"
  by (simp add: train_body_def get_training_data_def length_hourly_rows prepare_hourly
        split_idx_76 Let_def mean_sklearn_def mean_absolute_error_def mean_squared_error_def
        np_mean_replicate map_replicate_const model_key_def del: upt_rec_numeral)



text \<open>
  C6. When training succeeds on the feature table \<open>(X, y)\<close>, the table is cut at
  \<open>k = int(len(X) * 0.8)\<close>, which is \<open>4 * len(X) div 5\<close>: the training set is the
  first \<open>k\<close> rows in their order, the evaluation set the rows from \<open>k\<close> on, with
  no shuffle. The scaler is fitted on the training rows only; that same scaler
  transforms the training rows and the evaluation rows, the model is fitted on the
  scaled training rows and the first \<open>k\<close> targets and predicts on the scaled
  evaluation rows, and model and scaler are what the registry holds afterwards.
\<close>

theorem train_split_chronological:
  assumes "train_water_level_model sk feature_table dump_ok st query_result station_id sensor_id
             = (res, st')"
    and "status res = ''success''"
  shows "\<exists>X y scaler X_train_scaled X_test_scaled model y_pred.
           prepare_features feature_table (get_training_data query_result) = Some (X, y)
         \<and> split_idx (length X) = (4 * length X) div 5
         \<and> scaler_fit sk (take (split_idx (length X)) X) = Inr scaler
         \<and> scaler_transform sk scaler (take (split_idx (length X)) X) = Inr X_train_scaled
         \<and> scaler_transform sk scaler (drop (split_idx (length X)) X) = Inr X_test_scaled
         \<and> forest_fit sk X_train_scaled (take (split_idx (length X)) y) = Inr model
         \<and> forest_predict sk model X_test_scaled = Inr y_pred
         \<and> training_samples res = split_idx (length X)
         \<and> test_samples res = length X - split_idx (length X)
         \<and> models st' (model_key station_id sensor_id) = Some model
         \<and> scalers st' (model_key station_id sensor_id) = Some scaler"
proof -
  from train_cases [OF assms(1)] assms(2)
  have b: "train_body sk feature_table dump_ok st query_result station_id sensor_id = Inr (res, st')"
    by auto
  from train_body_success [OF b assms(2)] obtain X y scaler X_train_scaled X_test_scaled model
      y_pred mae_v mse_v where
    h: "prepare_features feature_table (get_training_data query_result) = Some (X, y)"
       "scaler_fit sk (take (split_idx (length X)) X) = Inr scaler"
       "scaler_transform sk scaler (take (split_idx (length X)) X) = Inr X_train_scaled"
       "scaler_transform sk scaler (drop (split_idx (length X)) X) = Inr X_test_scaled"
       "forest_fit sk X_train_scaled (take (split_idx (length X)) y) = Inr model"
       "forest_predict sk model X_test_scaled = Inr y_pred"
       "mean_absolute_error (drop (split_idx (length X)) y) y_pred = Inr mae_v"
       "res = Success mae_v (sqrt mse_v) (split_idx (length X)) (length X - split_idx (length X))"
       "models st' (model_key station_id sensor_id) = Some model"
       "scalers st' (model_key station_id sensor_id) = Some scaler"
    by blast
  from h(8) have t: "training_samples res = split_idx (length X)"
    "test_samples res = length X - split_idx (length X)" by simp_all
  from h(1-6) t h(9,10) split_idx_eq [of "length X"] show ?thesis by blast
qed

theorem train_split_chronological_witness:
  "\<exists>st'. train_water_level_model mean_sklearn lagged_table (\<lambda>p. True) empty_state
            (Inr hourly_rows) ''S1'' ''W1'' = (Success 0 0 60 16, st')
         \<and> models st' ''S1_W1'' = Some 2 \<and> scalers st' ''S1_W1'' = Some ()
         \<and> prepare_features lagged_table (get_training_data (Inr hourly_rows))
             = Some (map (\<lambda>i. [real (i mod 24)]) [24..<100], replicate 76 2)
         \<and> forest_fit mean_sklearn (map (\<lambda>i. [real (i mod 24)]) [24..<84]) (replicate 60 2)
             = Inr 2"
proof -
  obtain st' where r: "train_water_level_model mean_sklearn lagged_table (\<lambda>p. True) empty_state
            (Inr hourly_rows) ''S1'' ''W1'' = (Success 0 0 60 16, st')"
    by (simp add: train_water_level_model_def train_body_hourly)
  have s: "status (Success 0 0 60 16) = ''success''" by simp
  have p: "prepare_features lagged_table (get_training_data (Inr hourly_rows))
             = Some (map (\<lambda>i. [real (i mod 24)]) [24..<100], replicate 76 2)"
    by (simp add: get_training_data_def prepare_hourly)
  from train_split_chronological [OF r s] p
  obtain scaler X_train_scaled model where
    h: "scaler_transform mean_sklearn scaler (take 60 (map (\<lambda>i. [real (i mod 24)]) [24..<100]))
          = Inr X_train_scaled"
       "forest_fit mean_sklearn X_train_scaled (take 60 (replicate 76 2)) = Inr model"
       "models st' (model_key ''S1'' ''W1'') = Some model"
       "scalers st' (model_key ''S1'' ''W1'') = Some scaler"
    by (auto simp: split_idx_76 simp del: upt_rec_numeral)
  from h(1) have x: "X_train_scaled = map (\<lambda>i. [real (i mod 24)]) [24..<84]"
    by (simp add: mean_sklearn_def take_map del: upt_rec_numeral)
  from h(2) have "model = 2"
    by (simp add: mean_sklearn_def np_mean_replicate)
  with h(2,3,4) x r p show ?thesis
    by (auto simp: model_key_def simp del: upt_rec_numeral)
qed

subsection \<open>Prediction\<close>

lemma lookup_os: "lookup_global ''os'' = Inl (Exn ''NameError'' ''name os is not defined'')"
  by (simp add: lookup_global_def ml_forecasting_globals_def)

lemma load_model_fails: "load_model st station_id sensor_id = (False, st)"
  by (simp add: load_model_def lookup_os)












text \<open>
  C10. When the registry holds no model for the key of a station and sensor and the
  model file or the scaler file is missing, \<^verbatim>\<open>predict_water_level\<close> returns the
  empty list and leaves registry, files and stored forecasts as they were: it does not
  raise and does not train. It returns the empty list in the same way when the
  time-series store has no reading of the last 48 hours for the station and sensor.
\<close>

theorem predict_without_model_or_context:
  "(models st (model_key station_id sensor_id) = None \<longrightarrow>
      (model_files st (model_file (model_key station_id sensor_id)) = None
       \<or> scaler_files st (scaler_file (model_key station_id sensor_id)) = None) \<longrightarrow>
      predict_water_level prep sk db clock st station_id sensor_id horizon = ([], st))
   \<and> (get_recent_data db station_id sensor_id 48 = [] \<longrightarrow>
      predict_water_level prep sk db clock st station_id sensor_id horizon = ([], st))"
proof -
  have a: "models st (model_key station_id sensor_id) = None \<longrightarrow>
      predict_water_level prep sk db clock st station_id sensor_id horizon = ([], st)"
    by (simp add: predict_water_level_def predict_body_def load_model_fails Let_def)
  have b: "get_recent_data db station_id sensor_id 48 = [] \<longrightarrow>
      predict_water_level prep sk db clock st station_id sensor_id horizon = ([], st)"
    by (auto simp: predict_water_level_def predict_body_def load_model_fails Let_def
          call_get_recent_data_def split: option.splits)
  from a b show ?thesis by blast
qed

theorem predict_without_model_or_context_witness:
  "predict_water_level two_hours mean_sklearn one_reading hour_at empty_state ''S1'' ''W1'' 24
     = ([], empty_state)
   \<and> predict_water_level two_hours mean_sklearn no_readings hour_at trained_state ''S1'' ''W1'' 24
     = ([], trained_state)"
proof -
  have a: "models empty_state (model_key ''S1'' ''W1'') = None"
    "model_files empty_state (model_file (model_key ''S1'' ''W1'')) = None"
    by (simp_all add: empty_state_def)
  have b: "get_recent_data no_readings ''S1'' ''W1'' 48 = []"
    by (simp add: get_recent_data_def no_readings_def)
  from predict_without_model_or_context
    [of empty_state "''S1''" "''W1''" two_hours mean_sklearn one_reading hour_at 24] a
  have 1: "predict_water_level two_hours mean_sklearn one_reading hour_at empty_state
             ''S1'' ''W1'' 24 = ([], empty_state)" by blast
  from predict_without_model_or_context
    [of trained_state "''S1''" "''W1''" two_hours mean_sklearn no_readings hour_at 24] b
  have 2: "predict_water_level two_hours mean_sklearn no_readings hour_at trained_state
             ''S1'' ''W1'' 24 = ([], trained_state)" by blast
  from 1 2 show ?thesis by simp
qed

end
